theory Spec2Isabelle
  imports Complex_Main "HOL-Library.Sublist"
begin

section \<open>The Gemini service module of the SOP assistant\<close>

text \<open>
  A shallow embedding of the service module (\<^verbatim>\<open>services/geminiService\<close>): the nine
  exported operations that drive the remote file-search backend, together with
  \<^verbatim>\<open>initialize\<close>. Every operation is an \<^verbatim>\<open>async\<close> function; its promise is
  modelled by its outcome, \<open>Inl\<close> for a rejection and \<open>Inr\<close> for the value it resolves
  to, paired with the world after the call.
\<close>

subsection \<open>Errors\<close>

text \<open>
  \<open>Error msg\<close> is \<^verbatim>\<open>new Error(msg)\<close> thrown by the module itself, \<open>TypeError\<close> and
  \<open>SyntaxError\<close> are raised by the runtime (a property read on \<^verbatim>\<open>null\<close> or
  \<^verbatim>\<open>undefined\<close>, a failed \<^verbatim>\<open>JSON.parse\<close>), and \<open>Rejected detail\<close> is a rejection
  coming out of the SDK (network or protocol failure).
\<close>

datatype error = Error string | TypeError | SyntaxError | Rejected string

definition BackendUnavailable :: error where
  "BackendUnavailable = Error ''Gemini AI not initialized''"

definition InvalidResponse :: error where
  "InvalidResponse = Error ''Failed to create RAG store: name is missing.''"

subsection \<open>Data exchanged with the SDK\<close>

text \<open>An optional string field of an SDK object; \<open>None\<close> is \<^verbatim>\<open>undefined\<close>.\<close>

type_synonym ostring = "string option"

text \<open>JavaScript truthiness of such a field: absent and empty are both falsy.\<close>

fun truthy_str :: "ostring \<Rightarrow> bool" where
  "truthy_str None = False"
| "truthy_str (Some s) = (s \<noteq> [])"

record FileSearchStore =
  fs_name :: ostring
  fs_displayName :: ostring

record RagStore =
  name :: string
  displayName :: string

record CustomMetadata =
  key :: string
  stringValue :: string

text \<open>The SDK's file object; the module casts it to its own \<^verbatim>\<open>Document\<close> unchanged.\<close>

record Document =
  doc_name :: ostring
  doc_displayName :: ostring
  doc_customMetadata :: "CustomMetadata list"

record File =
  file_name :: string
  file_bytes :: "nat list"

text \<open>A long-running operation: \<^verbatim>\<open>done\<close> is an optional flag, \<^verbatim>\<open>error\<close> an optional payload.\<close>

record Operation =
  op_name :: ostring
  op_done :: "bool option"
  op_error :: ostring

text \<open>\<^verbatim>\<open>op.done\<close> as a condition: only \<^verbatim>\<open>true\<close> is truthy.\<close>

definition is_done :: "Operation \<Rightarrow> bool" where
  "is_done op = (op_done op = Some True)"

record UploadParams =
  fileSearchStoreName :: string
  up_file :: File
  up_displayName :: ostring
  up_customMetadata :: "CustomMetadata list option"

type_synonym GroundingChunk = ostring

record GroundingMetadata =
  groundingChunks :: "GroundingChunk list option"

record Candidate =
  groundingMetadata :: "GroundingMetadata option"

record GenerateContentResponse =
  resp_text :: ostring
  candidates :: "Candidate list option"

record GenerateParams =
  model :: string
  contents :: string
  fileSearchStoreNames :: "string list"

record QueryResult =
  qr_text :: ostring
  qr_groundingChunks :: "GroundingChunk list"

text \<open>
  A pager is an async iterable over pages; fetching a page can fail, which ends the
  iteration with that error.
\<close>

type_synonym 'a pager = "(error + 'a list) list"

subsection \<open>The backend and the world\<close>

text \<open>
  The SDK client, as the replies it gives. The reply to \<^verbatim>\<open>operations.get\<close> may depend
  on how many status fetches came before and on the operation handed in.
\<close>

record backend =
  stores_list :: "FileSearchStore pager"
  files_list :: "Document pager"
  stores_create :: "string \<Rightarrow> error + FileSearchStore"
  stores_delete :: "string \<Rightarrow> bool \<Rightarrow> error option"
  files_delete :: "string \<Rightarrow> error option"
  upload_reply :: "UploadParams \<Rightarrow> error + Operation"
  get_reply :: "nat \<Rightarrow> Operation \<Rightarrow> error + Operation"
  generate_reply :: "GenerateParams \<Rightarrow> error + GenerateContentResponse"

text \<open>What the module does to the outside, in order.\<close>

datatype event =
    StoresList
  | FilesList
  | StoresCreate string
  | StoresDelete string bool
  | FilesDelete string
  | UploadToFileSearchStore UploadParams
  | OperationsGet
  | Delay nat
  | GenerateContent GenerateParams
  | ConsoleWarn
  | ConsoleError

text \<open>
  The module variable \<^verbatim>\<open>ai\<close> (\<open>None\<close> until \<^verbatim>\<open>initialize\<close> has run), the number of
  status fetches the backend has served, and the log of effects, oldest first.
\<close>

record world =
  ai :: "backend option"
  fetched :: nat
  log :: "event list"

definition emit :: "event \<Rightarrow> world \<Rightarrow> world" where
  "emit ev w = w\<lparr>log := log w @ [ev]\<rparr>"

definition initialize :: "backend \<Rightarrow> world \<Rightarrow> world" where
  "initialize client w = w\<lparr>ai := Some client\<rparr>"

definition delay :: "nat \<Rightarrow> world \<Rightarrow> world" where
  "delay ms w = emit (Delay ms) w"

definition operations_get :: "backend \<Rightarrow> Operation \<Rightarrow> world \<Rightarrow> (error + Operation) \<times> world" where
  "operations_get b op w =
     (get_reply b (fetched w) op, (emit OperationsGet w)\<lparr>fetched := Suc (fetched w)\<rparr>)"

subsection \<open>Listing\<close>

text \<open>\<^verbatim>\<open>for await (const x of response) body\<close>, the loop state threaded through.\<close>

fun for_await :: "('s \<Rightarrow> 'a \<Rightarrow> 's) \<Rightarrow> 's \<Rightarrow> 'a pager \<Rightarrow> error + 's" where
  "for_await body s [] = Inr s"
| "for_await body s (Inl e # pages) = Inl e"
| "for_await body s (Inr page # pages) = for_await body (foldl body s page) pages"

definition store_kept :: "FileSearchStore \<Rightarrow> bool" where
  "store_kept store = (truthy_str (fs_name store) \<and> truthy_str (fs_displayName store))"

definition as_RagStore :: "FileSearchStore \<Rightarrow> RagStore" where
  "as_RagStore store = \<lparr>name = the (fs_name store), displayName = the (fs_displayName store)\<rparr>"

definition push_store :: "RagStore list \<Rightarrow> FileSearchStore \<Rightarrow> RagStore list" where
  "push_store stores store =
     (if store_kept store then stores @ [as_RagStore store] else stores)"

definition listRagStores :: "world \<Rightarrow> (error + RagStore list) \<times> world" where
  "listRagStores w =
     (case ai w of
        None \<Rightarrow> (Inl BackendUnavailable, w)
      | Some b \<Rightarrow> (for_await push_store [] (stores_list b), emit StoresList w))"

text \<open>\<^verbatim>\<open>doc.name?.startsWith(`${ragStoreName}/`)\<close>; an absent name gives \<^verbatim>\<open>undefined\<close>.\<close>

definition doc_kept :: "string \<Rightarrow> Document \<Rightarrow> bool" where
  "doc_kept ragStoreName doc =
     (case doc_name doc of None \<Rightarrow> False | Some n \<Rightarrow> prefix (ragStoreName @ ''/'') n)"

definition push_doc :: "string \<Rightarrow> Document list \<Rightarrow> Document \<Rightarrow> Document list" where
  "push_doc ragStoreName documents doc =
     (if doc_kept ragStoreName doc then documents @ [doc] else documents)"

definition listDocumentsInStore :: "string \<Rightarrow> world \<Rightarrow> (error + Document list) \<times> world" where
  "listDocumentsInStore ragStoreName w =
     (case ai w of
        None \<Rightarrow> (Inl BackendUnavailable, w)
      | Some b \<Rightarrow> (for_await (push_doc ragStoreName) [] (files_list b), emit FilesList w))"

subsection \<open>Creating and deleting\<close>

definition createRagStore :: "string \<Rightarrow> world \<Rightarrow> (error + string) \<times> world" where
  "createRagStore dn w =
     (case ai w of
        None \<Rightarrow> (Inl BackendUnavailable, w)
      | Some b \<Rightarrow>
          (case stores_create b dn of
             Inl e \<Rightarrow> (Inl e, emit (StoresCreate dn) w)
           | Inr ragStore \<Rightarrow>
               (if \<not> truthy_str (fs_name ragStore) then Inl InvalidResponse
                else Inr (the (fs_name ragStore)),
                emit (StoresCreate dn) w)))"

definition deleteRagStore :: "string \<Rightarrow> world \<Rightarrow> (error + unit) \<times> world" where
  "deleteRagStore ragStoreName w =
     (case ai w of
        None \<Rightarrow> (Inl BackendUnavailable, w)
      | Some b \<Rightarrow>
          (case stores_delete b ragStoreName True of
             Some e \<Rightarrow> Inl e
           | None \<Rightarrow> Inr (),
           emit (StoresDelete ragStoreName True) w))"

definition deleteDocument :: "string \<Rightarrow> world \<Rightarrow> (error + unit) \<times> world" where
  "deleteDocument documentName w =
     (case ai w of
        None \<Rightarrow> (Inl BackendUnavailable, w)
      | Some b \<Rightarrow>
          (case files_delete b documentName of
             Some e \<Rightarrow> Inl e
           | None \<Rightarrow> Inr (),
           emit (FilesDelete documentName) w))"

subsection \<open>Ingestion and the poll loop\<close>

text \<open>
  \<^verbatim>\<open>while (!op.done) { await delay(3000); op = await ai.operations.get({operation: op}); }\<close>
  The loop has no bound, so it is a partial function: \<open>None\<close> is the call that never
  settles. A rejected status fetch leaves the loop with that error. Both upload
  functions start the operation and run this loop, \<open>start_upload\<close> being their common
  body after the initialization check.
\<close>

partial_function (option) poll ::
  "backend \<Rightarrow> Operation \<Rightarrow> world \<Rightarrow> ((error + unit) \<times> world) option" where
  "poll b op w =
     (if is_done op then Some (Inr (), w)
      else (case operations_get b op (delay 3000 w) of
              (Inl e, w') \<Rightarrow> Some (Inl e, w')
            | (Inr op', w') \<Rightarrow> poll b op' w'))"

definition start_upload ::
  "backend \<Rightarrow> UploadParams \<Rightarrow> world \<Rightarrow> ((error + unit) \<times> world) option" where
  "start_upload b params w =
     (case upload_reply b params of
        Inl e \<Rightarrow> Some (Inl e, emit (UploadToFileSearchStore params) w)
      | Inr op \<Rightarrow> poll b op (emit (UploadToFileSearchStore params) w))"

text \<open>The argument of \<^verbatim>\<open>uploadToFileSearchStore\<close> in each of the two functions.\<close>

definition store_upload :: "string \<Rightarrow> File \<Rightarrow> UploadParams" where
  "store_upload ragStoreName f =
     \<lparr>fileSearchStoreName = ragStoreName, up_file = f,
      up_displayName = None, up_customMetadata = None\<rparr>"

definition document_upload :: "string \<Rightarrow> File \<Rightarrow> CustomMetadata list \<Rightarrow> UploadParams" where
  "document_upload ragStoreName f metadata =
     \<lparr>fileSearchStoreName = ragStoreName, up_file = f,
      up_displayName = Some (file_name f), up_customMetadata = Some metadata\<rparr>"

definition uploadToRagStore ::
  "string \<Rightarrow> File \<Rightarrow> world \<Rightarrow> ((error + unit) \<times> world) option" where
  "uploadToRagStore ragStoreName f w =
     (case ai w of
        None \<Rightarrow> Some (Inl BackendUnavailable, w)
      | Some b \<Rightarrow> start_upload b (store_upload ragStoreName f) w)"

definition uploadDocument ::
  "string \<Rightarrow> File \<Rightarrow> CustomMetadata list \<Rightarrow> world \<Rightarrow> ((error + unit) \<times> world) option" where
  "uploadDocument ragStoreName f metadata w =
     (case ai w of
        None \<Rightarrow> Some (Inl BackendUnavailable, w)
      | Some b \<Rightarrow> start_upload b (document_upload ragStoreName f metadata) w)"

text \<open>
  The statuses the loop inspects: the operation it starts with, then the reply to each
  status fetch, the \<open>n\<close>-th fetch of the backend onwards.
\<close>

fun status_after :: "backend \<Rightarrow> nat \<Rightarrow> Operation \<Rightarrow> nat \<Rightarrow> error + Operation" where
  "status_after b n op 0 = Inr op"
| "status_after b n op (Suc i) =
     (case get_reply b n op of
        Inl e \<Rightarrow> Inl e
      | Inr op' \<Rightarrow> status_after b (Suc n) op' i)"

subsection \<open>Querying\<close>

text \<open>
  \<^verbatim>\<open>supportedLanguages\<close> is imported from the module \<^verbatim>\<open>types\<close>; it is a parameter
  here, given by its own entries, language code to language name. It is a plain
  object, so the read \<^verbatim>\<open>supportedLanguages[language]\<close> finds an own entry, or else a
  property inherited from \<^verbatim>\<open>Object.prototype\<close>, or else \<^verbatim>\<open>undefined\<close>.
\<close>

type_synonym languages = "string \<rightharpoonup> string"

datatype property = Undefined | Own string | Inherited string

text \<open>
  The properties of \<^verbatim>\<open>Object.prototype\<close>, each with the text its value becomes inside a
  template literal: a built-in function as V8 prints it, and the prototype object
  itself for \<^verbatim>\<open>__proto__\<close>.
\<close>

definition native_function :: "string \<Rightarrow> string" where
  "native_function f = ''function '' @ f @ ''() { [native code] }''"

definition Object_prototype :: "(string \<times> string) list" where
  "Object_prototype =
     [(''constructor'', native_function ''Object''),
      (''hasOwnProperty'', native_function ''hasOwnProperty''),
      (''isPrototypeOf'', native_function ''isPrototypeOf''),
      (''propertyIsEnumerable'', native_function ''propertyIsEnumerable''),
      (''toLocaleString'', native_function ''toLocaleString''),
      (''toString'', native_function ''toString''),
      (''valueOf'', native_function ''valueOf''),
      (''__defineGetter__'', native_function ''__defineGetter__''),
      (''__defineSetter__'', native_function ''__defineSetter__''),
      (''__lookupGetter__'', native_function ''__lookupGetter__''),
      (''__lookupSetter__'', native_function ''__lookupSetter__''),
      (''__proto__'', ''[object Object]'')]"

definition read_language :: "languages \<Rightarrow> string \<Rightarrow> property" where
  "read_language supportedLanguages language =
     (case supportedLanguages language of
        Some n \<Rightarrow> Own n
      | None \<Rightarrow>
          (case map_of Object_prototype language of
             Some shown \<Rightarrow> Inherited shown
           | None \<Rightarrow> Undefined))"

text \<open>
  \<^verbatim>\<open>v || d\<close> on what the read gives, as the template literal then shows it: an
  inherited function or object is truthy and is shown as its text.
\<close>

definition or_default :: "property \<Rightarrow> string \<Rightarrow> string" where
  "or_default v d =
     (case v of
        Undefined \<Rightarrow> d
      | Own s \<Rightarrow> if s \<noteq> [] then s else d
      | Inherited shown \<Rightarrow> shown)"

definition query_languageName :: "languages \<Rightarrow> string \<Rightarrow> string" where
  "query_languageName supportedLanguages language =
     or_default (read_language supportedLanguages language) ''the user's query language''"

definition query_contents :: "string \<Rightarrow> string \<Rightarrow> string" where
  "query_contents query languageName =
     query @ ''\<newline>\<newline>IMPORTANT: Please respond in '' @ languageName @
     ''. DO NOT ASK THE USER TO READ THE MANUAL, pinpoint the relevant sections in the response itself.''"

definition search_params :: "string \<Rightarrow> string \<Rightarrow> GenerateParams" where
  "search_params c ragStoreName =
     \<lparr>model = ''gemini-2.5-flash'', contents = c, fileSearchStoreNames = [ragStoreName]\<rparr>"

text \<open>\<^verbatim>\<open>response.candidates?.[0]?.groundingMetadata?.groundingChunks || []\<close>\<close>

definition grounding_of :: "GenerateContentResponse \<Rightarrow> GroundingChunk list" where
  "grounding_of response =
     (case candidates response of
        None \<Rightarrow> []
      | Some [] \<Rightarrow> []
      | Some (c # _) \<Rightarrow>
          (case groundingMetadata c of
             None \<Rightarrow> []
           | Some gm \<Rightarrow> (case groundingChunks gm of None \<Rightarrow> [] | Some chunks \<Rightarrow> chunks)))"

definition fileSearch ::
  "languages \<Rightarrow> string \<Rightarrow> string \<Rightarrow> string \<Rightarrow> world \<Rightarrow> (error + QueryResult) \<times> world" where
  "fileSearch supportedLanguages ragStoreName query language w =
     (case ai w of
        None \<Rightarrow> (Inl BackendUnavailable, w)
      | Some b \<Rightarrow>
          (let languageName = query_languageName supportedLanguages language;
               params = search_params (query_contents query languageName) ragStoreName
           in (case generate_reply b params of
                 Inl e \<Rightarrow> Inl e
               | Inr response \<Rightarrow>
                   Inr \<lparr>qr_text = resp_text response,
                        qr_groundingChunks = grounding_of response\<rparr>,
               emit (GenerateContent params) w)))"

subsection \<open>Example questions\<close>

text \<open>
  Text is a list of 8-bit characters and is taken to be ASCII. \<^verbatim>\<open>trim\<close> removes the
  six ASCII whitespace characters; the further ones of \<^verbatim>\<open>String.prototype.trim\<close>
  (U+00A0, U+FEFF, U+2028, U+2029, the Unicode space separators) lie outside ASCII.
\<close>

definition is_space :: "char \<Rightarrow> bool" where
  "is_space c = (c \<in> set [CHR 0x09, CHR 0x0A, CHR 0x0B, CHR 0x0C, CHR 0x0D, CHR 0x20])"

definition trim :: "string \<Rightarrow> string" where
  "trim s = rev (dropWhile is_space (rev (dropWhile is_space s)))"

text \<open>\<^verbatim>\<open>s.indexOf(pat)\<close>, with \<open>None\<close> for \<^verbatim>\<open>-1\<close>.\<close>

fun indexOf :: "string \<Rightarrow> string \<Rightarrow> nat option" where
  "indexOf pat [] = (if pat = [] then Some 0 else None)"
| "indexOf pat (c # cs) =
     (if prefix pat (c # cs) then Some 0 else map_option Suc (indexOf pat cs))"

definition lastIndexOf :: "string \<Rightarrow> string \<Rightarrow> nat option" where
  "lastIndexOf pat s =
     (case indexOf (rev pat) (rev s) of
        None \<Rightarrow> None
      | Some i \<Rightarrow> Some (length s - length pat - i))"

text \<open>\<^verbatim>\<open>s.substring(i, j)\<close> for \<open>i \<le> j\<close>.\<close>

definition substring :: "string \<Rightarrow> nat \<Rightarrow> nat \<Rightarrow> string" where
  "substring s i j = take (j - i) (drop i s)"

text \<open>
  The first capture group of \<^verbatim>\<open>/```json\n([\s\S]*?)\n```/\<close>: the match starts at the
  leftmost opening fence, and the lazy group ends at the first closing fence after it.
\<close>

definition fence_open :: string where
  "fence_open = ''```json\<newline>''"

definition fence_close :: string where
  "fence_close = ''\<newline>```''"

definition match_fence :: "string \<Rightarrow> string option" where
  "match_fence s =
     (case indexOf fence_open s of
        None \<Rightarrow> None
      | Some i \<Rightarrow>
          (let rest = drop (i + length fence_open) s
           in (case indexOf fence_close rest of
                 None \<Rightarrow> None
               | Some j \<Rightarrow> Some (take j rest))))"

definition bracket_slice :: "string \<Rightarrow> string" where
  "bracket_slice jsonText =
     (case (indexOf ''['' jsonText, lastIndexOf '']'' jsonText) of
        (Some firstBracket, Some lastBracket) \<Rightarrow>
          (if lastBracket > firstBracket
           then substring jsonText firstBracket (lastBracket + 1)
           else jsonText)
      | _ \<Rightarrow> jsonText)"

definition extract_json :: "string \<Rightarrow> string" where
  "extract_json jsonText =
     (case match_fence jsonText of
        Some g \<Rightarrow> (if g \<noteq> [] then g else bracket_slice jsonText)
      | None \<Rightarrow> bracket_slice jsonText)"

text \<open>
  A value as \<^verbatim>\<open>JSON.parse\<close> returns it. An object lists its own properties, each key
  once. The parser itself is the runtime's and is a parameter (\<open>None\<close>: it throws).
\<close>

datatype json =
    JNull
  | JBool bool
  | JNumber real
  | JString string
  | JArray "json list"
  | JObject "(string \<times> json) list"

type_synonym parser = "string \<Rightarrow> json option"

fun truthy :: "json \<Rightarrow> bool" where
  "truthy JNull = False"
| "truthy (JBool b) = b"
| "truthy (JNumber x) = (x \<noteq> 0)"
| "truthy (JString s) = (s \<noteq> [])"
| "truthy (JArray xs) = True"
| "truthy (JObject kvs) = True"

fun is_string :: "json \<Rightarrow> bool" where
  "is_string (JString s) = True"
| "is_string _ = False"

text \<open>\<^verbatim>\<open>item.questions\<close>: a \<^verbatim>\<open>TypeError\<close> on \<^verbatim>\<open>null\<close>, \<^verbatim>\<open>undefined\<close> where absent.\<close>

fun questions_of :: "json \<Rightarrow> error + json option" where
  "questions_of JNull = Inl TypeError"
| "questions_of (JObject kvs) = Inr (map_of kvs ''questions'')"
| "questions_of _ = Inr None"

text \<open>
  \<^verbatim>\<open>typeof firstItem === 'object' && firstItem !== null && 'questions' in firstItem
  && Array.isArray(firstItem.questions)\<close>
\<close>

fun has_questions_array :: "json \<Rightarrow> bool" where
  "has_questions_array (JObject kvs) =
     (case map_of kvs ''questions'' of Some (JArray qs) \<Rightarrow> True | _ \<Rightarrow> False)"
| "has_questions_array _ = False"

text \<open>The callback \<^verbatim>\<open>item => (item.questions || [])\<close>.\<close>

definition questions_or_empty :: "json \<Rightarrow> error + json" where
  "questions_or_empty item =
     (case questions_of item of
        Inl e \<Rightarrow> Inl e
      | Inr None \<Rightarrow> Inr (JArray [])
      | Inr (Some q) \<Rightarrow> Inr (if truthy q then q else JArray []))"

text \<open>\<^verbatim>\<open>flatMap\<close> splices an array the callback returns and appends any other value.\<close>

fun spliced :: "json \<Rightarrow> json list" where
  "spliced (JArray xs) = xs"
| "spliced v = [v]"

fun flatMap_questions :: "json list \<Rightarrow> error + json list" where
  "flatMap_questions [] = Inr []"
| "flatMap_questions (item # items) =
     (case questions_or_empty item of
        Inl e \<Rightarrow> Inl e
      | Inr r \<Rightarrow>
          (case flatMap_questions items of
             Inl e \<Rightarrow> Inl e
           | Inr rest \<Rightarrow> Inr (spliced r @ rest)))"

text \<open>\<^verbatim>\<open>.filter(q => typeof q === 'string')\<close>\<close>

fun strings_only :: "json list \<Rightarrow> string list" where
  "strings_only [] = []"
| "strings_only (JString s # xs) = s # strings_only xs"
| "strings_only (_ # xs) = strings_only xs"

text \<open>
  What the function does with the parsed value: the questions it returns and whether it
  warns on the console, or the error thrown on the way.
\<close>

definition coerce :: "json \<Rightarrow> error + string list \<times> bool" where
  "coerce parsedData =
     (case parsedData of
        JArray [] \<Rightarrow> Inr ([], False)
      | JArray (firstItem # items) \<Rightarrow>
          (if has_questions_array firstItem then
             (case flatMap_questions (firstItem # items) of
                Inl e \<Rightarrow> Inl e
              | Inr qs \<Rightarrow> Inr (strings_only qs, False))
           else if is_string firstItem then Inr (strings_only (firstItem # items), False)
           else Inr ([], True))
      | _ \<Rightarrow> Inr ([], True))"

definition questions_languageName :: "languages \<Rightarrow> string \<Rightarrow> string" where
  "questions_languageName supportedLanguages language =
     or_default (read_language supportedLanguages language) ''English''"

definition questions_contents :: "string \<Rightarrow> string" where
  \<open>questions_contents languageName =
     ''You are provided with Standard Operating Procedure (SOP) documents from a manufacturing environment. For each document, generate 4 short and practical example questions a user might ask about the procedures in '' @
     languageName @
     ''. Return the questions as a JSON array of objects. Each object should have a 'product' key (representing the SOP topic, e.g., 'Machine Calibration') and a 'questions' key with an array of 4 question strings. For example: ```json[{"product": "Machine Calibration SOP", "questions": ["What is the first step in calibration?", "How often should this machine be calibrated?"]}, {"product": "Assembly Line Safety", "questions": ["What personal protective equipment is required?", "What is the emergency shutdown procedure?"]}]```''\<close>

text \<open>The body of the \<^verbatim>\<open>try\<close> block, from the backend's reply on.\<close>

definition try_questions ::
  "parser \<Rightarrow> error + GenerateContentResponse \<Rightarrow> error + string list \<times> bool" where
  "try_questions JSON_parse reply =
     (case reply of
        Inl e \<Rightarrow> Inl e
      | Inr response \<Rightarrow>
          (case resp_text response of
             None \<Rightarrow> Inl TypeError
           | Some t \<Rightarrow>
               (case JSON_parse (extract_json (trim t)) of
                  None \<Rightarrow> Inl SyntaxError
                | Some parsedData \<Rightarrow> coerce parsedData)))"

definition generateExampleQuestions ::
  "languages \<Rightarrow> parser \<Rightarrow> string \<Rightarrow> string \<Rightarrow> world \<Rightarrow> (error + string list) \<times> world" where
  "generateExampleQuestions supportedLanguages JSON_parse ragStoreName language w =
     (case ai w of
        None \<Rightarrow> (Inl BackendUnavailable, w)
      | Some b \<Rightarrow>
          (let languageName = questions_languageName supportedLanguages language;
               params = search_params (questions_contents languageName) ragStoreName;
               w' = emit (GenerateContent params) w
           in (case try_questions JSON_parse (generate_reply b params) of
                 Inl e \<Rightarrow> (Inr [], emit ConsoleError w')
               | Inr (qs, warned) \<Rightarrow> (Inr qs, if warned then emit ConsoleWarn w' else w'))))"

subsection \<open>The specification's wording, for comparison\<close>

text \<open>
  The shape coercion as the specification words it: with a first element that is an
  object with an array-valued \<^verbatim>\<open>questions\<close> field, the concatenation of all elements'
  \<^verbatim>\<open>questions\<close> arrays, string entries only; with a first element that is a string, the
  string entries of the array; otherwise nothing.
\<close>

fun questions_array :: "json \<Rightarrow> json list" where
  "questions_array (JObject kvs) =
     (case map_of kvs ''questions'' of Some (JArray qs) \<Rightarrow> qs | _ \<Rightarrow> [])"
| "questions_array _ = []"

definition claimed_coercion :: "json list \<Rightarrow> string list" where
  "claimed_coercion items =
     (case items of
        [] \<Rightarrow> []
      | firstItem # _ \<Rightarrow>
          (if has_questions_array firstItem then strings_only (concat (map questions_array items))
           else if is_string firstItem then strings_only items
           else []))"

text \<open>
  The coercion as the module performs it. An element adds the entries of its
  \<^verbatim>\<open>questions\<close> array, or its \<^verbatim>\<open>questions\<close> value itself when that is truthy and not an
  array, or nothing; a \<^verbatim>\<open>null\<close> element anywhere empties the whole result.
\<close>

fun contributed :: "json \<Rightarrow> json list" where
  "contributed (JObject kvs) =
     (case map_of kvs ''questions'' of
        None \<Rightarrow> []
      | Some (JArray qs) \<Rightarrow> qs
      | Some v \<Rightarrow> (if truthy v then [v] else []))"
| "contributed _ = []"

definition performed_coercion :: "json list \<Rightarrow> string list" where
  "performed_coercion items =
     (case items of
        [] \<Rightarrow> []
      | firstItem # _ \<Rightarrow>
          (if has_questions_array firstItem then
             (if JNull \<in> set items then [] else strings_only (concat (map contributed items)))
           else if is_string firstItem then strings_only items
           else []))"

text \<open>
  The failure paths the specification lists for the suggestion extractor: a backend
  failure, a payload that is no JSON (or no text at all), a parse result that is not an
  array, an element shape the coercion does not expect.
\<close>

definition failure_path :: "parser \<Rightarrow> error + GenerateContentResponse \<Rightarrow> bool" where
  "failure_path JSON_parse reply =
     (case reply of
        Inl e \<Rightarrow> True
      | Inr response \<Rightarrow>
          (case resp_text response of
             None \<Rightarrow> True
           | Some t \<Rightarrow>
               (case JSON_parse (extract_json (trim t)) of
                  None \<Rightarrow> True
                | Some (JArray []) \<Rightarrow> False
                | Some (JArray (firstItem # items)) \<Rightarrow>
                    (if has_questions_array firstItem then JNull \<in> set items
                     else \<not> is_string firstItem)
                | Some _ \<Rightarrow> True)))"

subsection \<open>Sample backends and inputs\<close>

definition pending :: Operation where
  "pending = \<lparr>op_name = Some ''operations/1'', op_done = None, op_error = None\<rparr>"

definition client :: backend where
  "client =
     \<lparr>stores_list = [], files_list = [],
      stores_create = (\<lambda>dn. Inr \<lparr>fs_name = Some (''fileSearchStores/'' @ dn), fs_displayName = Some dn\<rparr>),
      stores_delete = (\<lambda>n force. None),
      files_delete = (\<lambda>n. None),
      upload_reply = (\<lambda>p. Inr pending),
      get_reply = (\<lambda>n op. Inr (op\<lparr>op_done := Some True\<rparr>)),
      generate_reply = (\<lambda>p. Inr \<lparr>resp_text = Some ''not json at all'', candidates = None\<rparr>)\<rparr>"

definition fresh :: world where
  "fresh = \<lparr>ai = None, fetched = 0, log = []\<rparr>"

definition manual :: File where
  "manual = \<lparr>file_name = ''manual.pdf'', file_bytes = [37, 80, 68, 70]\<rparr>"

text \<open>An ingestion that the backend ends in failure at the first status fetch.\<close>

definition failing_client :: backend where
  "failing_client =
     client\<lparr>get_reply :=
       (\<lambda>n op. Inr (op\<lparr>op_done := Some True, op_error := Some ''ingestion failed''\<rparr>))\<rparr>"

text \<open>An ingestion that is already done when the upload call returns.\<close>

definition prompt_client :: backend where
  "prompt_client = client\<lparr>upload_reply := (\<lambda>p. Inr (pending\<lparr>op_done := Some True\<rparr>))\<rparr>"

text \<open>An ingestion that is reported done at the third status fetch.\<close>

definition slow_client :: backend where
  "slow_client = client\<lparr>get_reply := (\<lambda>n op. Inr (op\<lparr>op_done := Some (2 \<le> n)\<rparr>))\<rparr>"

definition store_a :: FileSearchStore where
  "store_a = \<lparr>fs_name = Some ''fileSearchStores/a'', fs_displayName = Some ''Assembly''\<rparr>"

definition store_b :: FileSearchStore where
  "store_b = \<lparr>fs_name = Some ''fileSearchStores/b'', fs_displayName = Some ''Boilers''\<rparr>"

definition store_unnamed :: FileSearchStore where
  "store_unnamed = \<lparr>fs_name = None, fs_displayName = Some ''Cranes''\<rparr>"

definition store_untitled :: FileSearchStore where
  "store_untitled = \<lparr>fs_name = Some ''fileSearchStores/d'', fs_displayName = None\<rparr>"

definition store_blank :: FileSearchStore where
  "store_blank = \<lparr>fs_name = Some ''fileSearchStores/e'', fs_displayName = Some []\<rparr>"

definition doc_a1 :: Document where
  "doc_a1 = \<lparr>doc_name = Some ''fileSearchStores/a/doc1'', doc_displayName = Some ''one.pdf'',
            doc_customMetadata = []\<rparr>"

definition doc_a2 :: Document where
  "doc_a2 = \<lparr>doc_name = Some ''fileSearchStores/a/doc2'', doc_displayName = Some ''two.pdf'',
            doc_customMetadata = [\<lparr>key = ''version'', stringValue = ''2.1''\<rparr>]\<rparr>"

definition doc_b1 :: Document where
  "doc_b1 = \<lparr>doc_name = Some ''fileSearchStores/b/doc1'', doc_displayName = Some ''other.pdf'',
            doc_customMetadata = []\<rparr>"

definition doc_unnamed :: Document where
  "doc_unnamed = \<lparr>doc_name = None, doc_displayName = Some ''stray.pdf'', doc_customMetadata = []\<rparr>"

definition listing_client :: backend where
  "listing_client =
     client\<lparr>stores_list := [Inr [store_a, store_unnamed], Inr [store_untitled, store_b]],
            files_list := [Inr [doc_a1, doc_b1], Inr [doc_unnamed, doc_a2]]\<rparr>"

definition blank_listing_client :: backend where
  "blank_listing_client = client\<lparr>stores_list := [Inr [store_blank]]\<rparr>"

definition nameless_client :: backend where
  "nameless_client =
     client\<lparr>stores_create := (\<lambda>dn. Inr \<lparr>fs_name = None, fs_displayName = Some dn\<rparr>)\<rparr>"

definition blank_name_client :: backend where
  "blank_name_client =
     client\<lparr>stores_create := (\<lambda>dn. Inr \<lparr>fs_name = Some [], fs_displayName = Some dn\<rparr>)\<rparr>"

definition sample_languages :: languages where
  "sample_languages = map_of [(''en'', ''English''), (''es'', ''Spanish'')]"

definition groups_text :: string where
  \<open>groups_text = ''[{"product":"A","questions":["q1"]},{"product":"B","questions":["q2","q3"]}]''\<close>

definition groups_json :: "json list" where
  "groups_json =
     [JObject [(''product'', JString ''A''), (''questions'', JArray [JString ''q1''])],
      JObject [(''product'', JString ''B''),
               (''questions'', JArray [JString ''q2'', JString ''q3''])]]"

definition null_text :: string where
  \<open>null_text = ''[{"product":"A","questions":["q1"]},null]''\<close>

definition null_json :: "json list" where
  "null_json =
     [JObject [(''product'', JString ''A''), (''questions'', JArray [JString ''q1''])], JNull]"

definition scalar_text :: string where
  \<open>scalar_text = ''[{"product":"A","questions":["q1"]},{"product":"B","questions":"q2"}]''\<close>

definition scalar_json :: "json list" where
  "scalar_json =
     [JObject [(''product'', JString ''A''), (''questions'', JArray [JString ''q1''])],
      JObject [(''product'', JString ''B''), (''questions'', JString ''q2'')]]"

text \<open>A parser that knows the three sample payloads and rejects every other text.\<close>

definition sample_parse :: parser where
  "sample_parse =
     map_of [(groups_text, JArray groups_json), (null_text, JArray null_json),
             (scalar_text, JArray scalar_json)]"

text \<open>A backend that answers with the sample payload named after the store.\<close>

definition answering_client :: backend where
  "answering_client =
     client\<lparr>generate_reply :=
       (\<lambda>p. Inr \<lparr>resp_text =
                   Some (if fileSearchStoreNames p = [''groups''] then groups_text
                         else if fileSearchStoreNames p = [''null''] then null_text
                         else scalar_text),
                 candidates = None\<rparr>)\<rparr>"

section \<open>Properties\<close>

subsection \<open>The poll loop\<close>

lemma poll_done: "is_done op \<Longrightarrow> poll b op w = Some (Inr (), w)"
  by (subst poll.simps) simp

lemma poll_step:
  "\<not> is_done op \<Longrightarrow> get_reply b (fetched w) op = Inr op' \<Longrightarrow>
   poll b op w =
     poll b op' (w\<lparr>log := log w @ [Delay 3000, OperationsGet], fetched := Suc (fetched w)\<rparr>)"
  by (subst poll.simps) (simp add: operations_get_def delay_def emit_def)

lemma poll_run:
  "(\<forall>i<k. \<exists>op'. status_after b (fetched w) op i = Inr op' \<and> \<not> is_done op') \<Longrightarrow>
   status_after b (fetched w) op k = Inr opk \<Longrightarrow> is_done opk \<Longrightarrow>
   poll b op w =
     Some (Inr (), w\<lparr>log := log w @ concat (replicate k [Delay 3000, OperationsGet]),
                     fetched := fetched w + k\<rparr>)"
proof (induction k arbitrary: op w)
  case 0
  then show ?case by (simp add: poll_done)
next
  case (Suc k)
  from Suc.prems(1) have nd: "\<not> is_done op" by (auto dest: spec [of _ 0])
  from Suc.prems(2) obtain op1 where g: "get_reply b (fetched w) op = Inr op1"
    and s: "status_after b (Suc (fetched w)) op1 k = Inr opk"
    by (auto split: sum.splits)
  let ?w = "w\<lparr>log := log w @ [Delay 3000, OperationsGet], fetched := Suc (fetched w)\<rparr>"
  have "\<forall>i<k. \<exists>op'. status_after b (fetched ?w) op1 i = Inr op' \<and> \<not> is_done op'"
  proof (intro allI impI)
    fix i assume "i < k"
    then have "Suc i < Suc k" by simp
    with Suc.prems(1) obtain op' where "status_after b (fetched w) op (Suc i) = Inr op'" "\<not> is_done op'"
      by blast
    then show "\<exists>op'. status_after b (fetched ?w) op1 i = Inr op' \<and> \<not> is_done op'"
      using g by simp
  qed
  moreover have "status_after b (fetched ?w) op1 k = Inr opk" using s by simp
  ultimately have "poll b op1 ?w =
     Some (Inr (), ?w\<lparr>log := log ?w @ concat (replicate k [Delay 3000, OperationsGet]),
                     fetched := fetched ?w + k\<rparr>)"
    using Suc.prems(3) by (rule Suc.IH)
  then show ?case using poll_step [OF nd g] by simp
qed

lemma start_upload_run:
  assumes "upload_reply b params = Inr op0"
    and "\<forall>i<k. \<exists>op. status_after b (fetched w) op0 i = Inr op \<and> \<not> is_done op"
    and "status_after b (fetched w) op0 k = Inr opk" and "is_done opk"
  shows "start_upload b params w =
     Some (Inr (), w\<lparr>log := log w @ UploadToFileSearchStore params #
                                concat (replicate k [Delay 3000, OperationsGet]),
                     fetched := fetched w + k\<rparr>)"
proof -
  let ?w = "emit (UploadToFileSearchStore params) w"
  have f: "fetched ?w = fetched w" by (simp add: emit_def)
  have "poll b op0 ?w =
     Some (Inr (), ?w\<lparr>log := log ?w @ concat (replicate k [Delay 3000, OperationsGet]),
                     fetched := fetched ?w + k\<rparr>)"
    by (rule poll_run [where opk = opk]) (use assms f in simp_all)
  then show ?thesis using assms(1) by (simp add: start_upload_def emit_def)
qed

lemma count_gets:
  "count_list (concat (replicate k [Delay 3000, OperationsGet])) OperationsGet = k"
  by (induction k) simp_all

lemma upload_calls:
  assumes "ai w = Some b"
    and "(call, params) \<in> {(uploadToRagStore s f, store_upload s f),
                            (uploadDocument s f m, document_upload s f m)}"
  shows "call w = start_upload b params w"
  using assms by (auto simp: uploadToRagStore_def uploadDocument_def)

lemma failing_status:
  "status_after failing_client 0 pending (Suc 0)
     = Inr (pending\<lparr>op_done := Some True, op_error := Some ''ingestion failed''\<rparr>)"
  by (simp add: failing_client_def client_def)

subsection \<open>The listing loops\<close>

lemma for_await_pages:
  "for_await body s (map Inr pages) = Inr (foldl body s (concat pages))"
  by (induction pages arbitrary: s) simp_all

lemma foldl_push_store:
  "foldl push_store stores xs = stores @ map as_RagStore (filter store_kept xs)"
  by (induction xs arbitrary: stores) (simp_all add: push_store_def)

lemma foldl_push_doc:
  "foldl (push_doc s) documents xs = documents @ filter (doc_kept s) xs"
  by (induction xs arbitrary: documents) (simp_all add: push_doc_def)

lemma listRagStores_pages:
  "ai w = Some b \<Longrightarrow> stores_list b = map Inr pages \<Longrightarrow>
   listRagStores w = (Inr (map as_RagStore (filter store_kept (concat pages))), emit StoresList w)"
  by (simp add: listRagStores_def for_await_pages foldl_push_store)

lemma listDocumentsInStore_pages:
  "ai w = Some b \<Longrightarrow> files_list b = map Inr pages \<Longrightarrow>
   listDocumentsInStore s w = (Inr (filter (doc_kept s) (concat pages)), emit FilesList w)"
  by (simp add: listDocumentsInStore_def for_await_pages foldl_push_doc)

subsection \<open>The shape coercion and the sample payloads\<close>

lemma questions_or_empty_contributed:
  "questions_or_empty item =
     (if item = JNull then Inl TypeError
      else Inr (case questions_of item of
                  Inr (Some q) \<Rightarrow> if truthy q then q else JArray []
                | _ \<Rightarrow> JArray []))"
  by (cases item) (simp_all add: questions_or_empty_def split: option.splits)

lemma spliced_contributed:
  "item \<noteq> JNull \<Longrightarrow> questions_or_empty item = Inr r \<Longrightarrow> spliced r = contributed item"
proof (cases item)
  case (JObject kvs)
  assume "questions_or_empty item = Inr r"
  with JObject show ?thesis
  proof (cases "map_of kvs ''questions''")
    case None
    with JObject \<open>questions_or_empty item = Inr r\<close> show ?thesis
      by (auto simp: questions_or_empty_def)
  next
    case (Some q)
    with JObject \<open>questions_or_empty item = Inr r\<close> show ?thesis
      by (cases q) (auto simp: questions_or_empty_def split: if_splits)
  qed
qed (auto simp: questions_or_empty_def)

lemma flatMap_questions_eq:
  "flatMap_questions items =
     (if JNull \<in> set items then Inl TypeError else Inr (concat (map contributed items)))"
proof (induction items)
  case Nil
  show ?case by simp
next
  case (Cons item items)
  show ?case
  proof (cases "item = JNull")
    case True
    then show ?thesis by (simp add: questions_or_empty_def)
  next
    case False
    then obtain r where r: "questions_or_empty item = Inr r"
      by (simp add: questions_or_empty_contributed)
    with False have "spliced r = contributed item" by (rule spliced_contributed)
    with r False Cons.IH show ?thesis by auto
  qed
qed

lemma has_questions_array_not_null: "has_questions_array x \<Longrightarrow> x \<noteq> JNull"
  by (cases x) simp_all

lemma coerce_nonempty:
  "coerce (JArray (x # xs)) =
     (if has_questions_array x then
        (if JNull \<in> set xs then Inl TypeError
         else Inr (strings_only (concat (map contributed (x # xs))), False))
      else if is_string x then Inr (strings_only (x # xs), False)
      else Inr ([], True))"
  using has_questions_array_not_null [of x]
  by (auto simp: coerce_def flatMap_questions_eq simp del: flatMap_questions.simps)

lemma coerce_not_array: "(\<forall>xs. v \<noteq> JArray xs) \<Longrightarrow> coerce v = Inr ([], True)"
  by (cases v) (simp_all add: coerce_def)

lemma generateExampleQuestions_initialized:
  "ai w = Some b \<Longrightarrow>
   fst (generateExampleQuestions tbl parse s lang w) =
     Inr (case try_questions parse
                 (generate_reply b (search_params (questions_contents (questions_languageName tbl lang)) s)) of
            Inl e \<Rightarrow> []
          | Inr (qs, warned) \<Rightarrow> qs)"
  by (simp add: generateExampleQuestions_def Let_def split: sum.splits prod.splits)

lemma plain_text: "extract_json (trim ''not json at all'') = ''not json at all''"
  by (simp add: extract_json_def trim_def is_space_def match_fence_def fence_open_def
      bracket_slice_def lastIndexOf_def)

lemma sample_texts:
  "extract_json (trim groups_text) = groups_text"
  "extract_json (trim null_text) = null_text"
  "extract_json (trim scalar_text) = scalar_text"
  by (simp_all add: extract_json_def trim_def is_space_def match_fence_def fence_open_def
      bracket_slice_def lastIndexOf_def substring_def groups_text_def null_text_def scalar_text_def)

lemma sample_parses:
  "sample_parse groups_text = Some (JArray groups_json)"
  "sample_parse null_text = Some (JArray null_json)"
  "sample_parse scalar_text = Some (JArray scalar_json)"
  by (simp_all add: sample_parse_def groups_text_def null_text_def scalar_text_def)

lemma answering_replies:
  "generate_reply answering_client (search_params c ''groups'')
     = Inr \<lparr>resp_text = Some groups_text, candidates = None\<rparr>"
  "generate_reply answering_client (search_params c ''null'')
     = Inr \<lparr>resp_text = Some null_text, candidates = None\<rparr>"
  "generate_reply answering_client (search_params c ''scalar'')
     = Inr \<lparr>resp_text = Some scalar_text, candidates = None\<rparr>"
  by (simp_all add: answering_client_def search_params_def)

subsection \<open>Initialization\<close>

text \<open>
  C8. Every public operation of the backend client (list, create, delete, upload, query,
  suggestion generation), called before \<^verbatim>\<open>initialize\<close> has run, fails at once with
  \<open>BackendUnavailable\<close> and leaves the world as it was: no backend call is attempted.
\<close>

theorem uninitialized_fails_fast:
  assumes "ai w = None"
  shows "listRagStores w = (Inl BackendUnavailable, w)
       \<and> listDocumentsInStore ragStoreName w = (Inl BackendUnavailable, w)
       \<and> createRagStore dn w = (Inl BackendUnavailable, w)
       \<and> deleteRagStore ragStoreName w = (Inl BackendUnavailable, w)
       \<and> deleteDocument documentName w = (Inl BackendUnavailable, w)
       \<and> uploadToRagStore ragStoreName f w = Some (Inl BackendUnavailable, w)
       \<and> uploadDocument ragStoreName f metadata w = Some (Inl BackendUnavailable, w)
       \<and> fileSearch supportedLanguages ragStoreName query language w = (Inl BackendUnavailable, w)
       \<and> generateExampleQuestions supportedLanguages JSON_parse ragStoreName language w
           = (Inl BackendUnavailable, w)"
  using assms
  by (simp add: listRagStores_def listDocumentsInStore_def createRagStore_def deleteRagStore_def
      deleteDocument_def uploadToRagStore_def uploadDocument_def fileSearch_def
      generateExampleQuestions_def)

theorem uninitialized_fails_fast_witness:
  "ai fresh = None
   \<and> listRagStores fresh = (Inl BackendUnavailable, fresh)
   \<and> listDocumentsInStore ''fileSearchStores/a'' fresh = (Inl BackendUnavailable, fresh)
   \<and> createRagStore ''Assembly'' fresh = (Inl BackendUnavailable, fresh)
   \<and> deleteRagStore ''fileSearchStores/a'' fresh = (Inl BackendUnavailable, fresh)
   \<and> deleteDocument ''fileSearchStores/a/doc1'' fresh = (Inl BackendUnavailable, fresh)
   \<and> uploadToRagStore ''fileSearchStores/a'' manual fresh = Some (Inl BackendUnavailable, fresh)
   \<and> uploadDocument ''fileSearchStores/a'' manual [] fresh = Some (Inl BackendUnavailable, fresh)
   \<and> fileSearch sample_languages ''fileSearchStores/a'' ''How?'' ''en'' fresh
       = (Inl BackendUnavailable, fresh)
   \<and> generateExampleQuestions sample_languages sample_parse ''fileSearchStores/a'' ''en'' fresh
       = (Inl BackendUnavailable, fresh)
   \<and> log fresh = []"
proof -
  have h: "ai fresh = None" by (simp add: fresh_def)
  show ?thesis
    using h uninitialized_fails_fast [OF h, of "''fileSearchStores/a''" "''Assembly''"
        "''fileSearchStores/a/doc1''" manual "[]" sample_languages "''How?''" "''en''" sample_parse]
    by (simp add: fresh_def)
qed

subsection \<open>Ingestion\<close>

text \<open>
  C2, as the code has it. For an operation that is not done when the upload call
  returns it, and whose status fetches answer not-done \<open>k\<close> times and done the next
  time, the ingestion call makes exactly \<open>k + 1\<close> status fetches, each right after a
  sleep of 3000 ms, and returns with the last of them made.
\<close>

theorem just_started_fetch_count:
  assumes "ai w = Some b"
    and "(call, params) \<in> {(uploadToRagStore s f, store_upload s f),
                            (uploadDocument s f m, document_upload s f m)}"
    and "upload_reply b params = Inr op0" and "\<not> is_done op0"
    and "\<forall>i<k. \<exists>op. status_after b (fetched w) op0 (Suc i) = Inr op \<and> \<not> is_done op"
    and "\<exists>opk. status_after b (fetched w) op0 (Suc k) = Inr opk \<and> is_done opk"
  shows "\<exists>w'. call w = Some (Inr (), w')
           \<and> log w' = log w @ UploadToFileSearchStore params #
                                concat (replicate (k + 1) [Delay 3000, OperationsGet])
           \<and> fetched w' = fetched w + (k + 1)
           \<and> count_list (log w') OperationsGet = count_list (log w) OperationsGet + (k + 1)"
proof -
  from assms(6) obtain opk where
    k: "status_after b (fetched w) op0 (Suc k) = Inr opk" and d: "is_done opk"
    by blast
  have "\<forall>i<Suc k. \<exists>op. status_after b (fetched w) op0 i = Inr op \<and> \<not> is_done op"
  proof (intro allI impI)
    fix i assume "i < Suc k"
    show "\<exists>op. status_after b (fetched w) op0 i = Inr op \<and> \<not> is_done op"
    proof (cases i)
      case 0
      with assms(4) show ?thesis by simp
    next
      case (Suc j)
      with \<open>i < Suc k\<close> have "j < k" by simp
      with assms(5) Suc show ?thesis by blast
    qed
  qed
  with assms(3) have "start_upload b params w =
     Some (Inr (), w\<lparr>log := log w @ UploadToFileSearchStore params #
                                concat (replicate (Suc k) [Delay 3000, OperationsGet]),
                     fetched := fetched w + Suc k\<rparr>)"
    using k d by (rule start_upload_run)
  moreover have "count_list (log w @ UploadToFileSearchStore params #
                   concat (replicate (Suc k) [Delay 3000, OperationsGet])) OperationsGet
                 = count_list (log w) OperationsGet + Suc k"
    using count_gets [of "Suc k"] by simp
  ultimately show ?thesis
    using upload_calls [OF assms(1,2)] by simp
qed

theorem just_started_fetch_count_witness:
  "\<exists>w'. uploadDocument ''fileSearchStores/a'' manual [] (initialize slow_client fresh)
           = Some (Inr (), w')
       \<and> log w' = [UploadToFileSearchStore (document_upload ''fileSearchStores/a'' manual []),
                   Delay 3000, OperationsGet, Delay 3000, OperationsGet, Delay 3000, OperationsGet]
       \<and> fetched w' = 3
       \<and> count_list (log w') OperationsGet = 3"
proof -
  let ?w = "initialize slow_client fresh"
  let ?p = "document_upload ''fileSearchStores/a'' manual []"
  have 1: "ai ?w = Some slow_client" by (simp add: initialize_def)
  have 2: "(uploadDocument ''fileSearchStores/a'' manual [], ?p)
    \<in> {(uploadToRagStore ''fileSearchStores/a'' manual, store_upload ''fileSearchStores/a'' manual),
       (uploadDocument ''fileSearchStores/a'' manual [], ?p)}" by simp
  have 3: "upload_reply slow_client ?p = Inr pending" by (simp add: slow_client_def client_def)
  have 4: "\<not> is_done pending" by (simp add: is_done_def pending_def)
  have f: "fetched ?w = 0" and l: "log ?w = []" by (simp_all add: initialize_def fresh_def)
  have s1: "status_after slow_client 0 pending (Suc 0) = Inr (pending\<lparr>op_done := Some False\<rparr>)"
    by (simp add: slow_client_def client_def)
  have s2: "status_after slow_client 0 pending (Suc (Suc 0)) = Inr (pending\<lparr>op_done := Some False\<rparr>)"
    by (simp add: slow_client_def client_def)
  have s3: "status_after slow_client 0 pending (Suc (Suc (Suc 0))) = Inr (pending\<lparr>op_done := Some True\<rparr>)"
    by (simp add: slow_client_def client_def)
  have 5: "\<forall>i<2. \<exists>op. status_after slow_client (fetched ?w) pending (Suc i) = Inr op \<and> \<not> is_done op"
  proof (intro allI impI)
    fix i :: nat assume "i < 2"
    then consider "i = 0" | "i = Suc 0" by linarith
    then show "\<exists>op. status_after slow_client (fetched ?w) pending (Suc i) = Inr op \<and> \<not> is_done op"
      using s1 s2 f by cases (simp_all add: is_done_def pending_def)
  qed
  have 6: "\<exists>opk. status_after slow_client (fetched ?w) pending (Suc 2) = Inr opk \<and> is_done opk"
    using s3 f by (simp add: numeral_2_eq_2 is_done_def)
  from just_started_fetch_count [OF 1 2 3 4 5 6] obtain w' where
    r: "uploadDocument ''fileSearchStores/a'' manual [] ?w = Some (Inr (), w')"
    and "log w' = log ?w @ UploadToFileSearchStore ?p #
                concat (replicate (2 + 1) [Delay 3000, OperationsGet])"
    and "fetched w' = fetched ?w + (2 + 1)"
    and "count_list (log w') OperationsGet = count_list (log ?w) OperationsGet + (2 + 1)"
    by blast
  with f l have "log w' = [UploadToFileSearchStore ?p,
        Delay 3000, OperationsGet, Delay 3000, OperationsGet, Delay 3000, OperationsGet]"
    and "fetched w' = 3" and "count_list (log w') OperationsGet = 3"
    by (simp_all add: numeral_3_eq_3 numeral_2_eq_2)
  with r show ?thesis by blast
qed

text \<open>
  C2 as stated fails: the operation is already done when the upload call returns it,
  the first status fetch would report done, and the call returns without fetching.
\<close>

theorem finished_operation_not_fetched:
  "upload_reply prompt_client (document_upload ''fileSearchStores/a'' manual [])
     = Inr \<lparr>op_name = Some ''operations/1'', op_done = Some True, op_error = None\<rparr>
   \<and> get_reply prompt_client 0 \<lparr>op_name = Some ''operations/1'', op_done = Some True, op_error = None\<rparr>
     = Inr \<lparr>op_name = Some ''operations/1'', op_done = Some True, op_error = None\<rparr>
   \<and> uploadDocument ''fileSearchStores/a'' manual [] (initialize prompt_client fresh)
     = Some (Inr (),
         \<lparr>ai = Some prompt_client, fetched = 0,
          log = [UploadToFileSearchStore (document_upload ''fileSearchStores/a'' manual [])]\<rparr>)"
  by (simp add: prompt_client_def client_def pending_def uploadDocument_def initialize_def
      fresh_def start_upload_def poll_done is_done_def emit_def)

text \<open>
  C1, as the code has it. When the polled operation reaches done with an error payload,
  the ingestion call stops polling there and returns normally: the payload is not
  looked at and no error is raised.
\<close>

theorem done_with_error_returns:
  assumes "ai w = Some b"
    and "(call, params) \<in> {(uploadToRagStore s f, store_upload s f),
                            (uploadDocument s f m, document_upload s f m)}"
    and "upload_reply b params = Inr op0"
    and "\<forall>i<k. \<exists>op. status_after b (fetched w) op0 i = Inr op \<and> \<not> is_done op"
    and "status_after b (fetched w) op0 k = Inr opk"
    and "is_done opk" and "op_error opk = Some detail"
  shows "\<exists>w'. call w = Some (Inr (), w') \<and> fetched w' = fetched w + k"
proof -
  from assms(3,4,5,6) have "start_upload b params w =
     Some (Inr (), w\<lparr>log := log w @ UploadToFileSearchStore params #
                                concat (replicate k [Delay 3000, OperationsGet]),
                     fetched := fetched w + k\<rparr>)"
    by (rule start_upload_run)
  then show ?thesis
    using upload_calls [OF assms(1,2)] by simp
qed

theorem done_with_error_returns_witness:
  "\<exists>w'. uploadToRagStore ''fileSearchStores/a'' manual (initialize failing_client fresh)
           = Some (Inr (), w') \<and> fetched w' = 1"
proof -
  let ?w = "initialize failing_client fresh"
  let ?p = "store_upload ''fileSearchStores/a'' manual"
  have 1: "ai ?w = Some failing_client" by (simp add: initialize_def)
  have 2: "(uploadToRagStore ''fileSearchStores/a'' manual, ?p)
    \<in> {(uploadToRagStore ''fileSearchStores/a'' manual, ?p),
       (uploadDocument ''fileSearchStores/a'' manual [],
        document_upload ''fileSearchStores/a'' manual [])}" by simp
  have 3: "upload_reply failing_client ?p = Inr pending"
    by (simp add: failing_client_def client_def)
  have f: "fetched ?w = 0" by (simp add: initialize_def fresh_def)
  have 4: "\<forall>i<Suc 0. \<exists>op. status_after failing_client (fetched ?w) pending i = Inr op \<and> \<not> is_done op"
    by (simp add: is_done_def pending_def)
  have 5: "status_after failing_client (fetched ?w) pending (Suc 0)
     = Inr (pending\<lparr>op_done := Some True, op_error := Some ''ingestion failed''\<rparr>)"
    using failing_status f by simp
  have 6: "is_done (pending\<lparr>op_done := Some True, op_error := Some ''ingestion failed''\<rparr>)"
    by (simp add: is_done_def)
  have 7: "op_error (pending\<lparr>op_done := Some True, op_error := Some ''ingestion failed''\<rparr>)
     = Some ''ingestion failed''" by simp
  show ?thesis
    using done_with_error_returns [OF 1 2 3 4 5 6 7] f by simp
qed

text \<open>
  C1 as stated fails: the backend ends the ingestion in failure at the first status
  fetch, and \<^verbatim>\<open>uploadDocument\<close> resolves.
\<close>

theorem ingestion_failure_not_surfaced:
  "status_after failing_client 0 pending 1
     = Inr \<lparr>op_name = Some ''operations/1'', op_done = Some True,
            op_error = Some ''ingestion failed''\<rparr>
   \<and> uploadDocument ''fileSearchStores/a'' manual [] (initialize failing_client fresh)
     = Some (Inr (),
         \<lparr>ai = Some failing_client, fetched = 1,
          log = [UploadToFileSearchStore (document_upload ''fileSearchStores/a'' manual []),
                 Delay 3000, OperationsGet]\<rparr>)"
proof -
  let ?w = "initialize failing_client fresh"
  let ?p = "document_upload ''fileSearchStores/a'' manual []"
  have f: "fetched ?w = 0" by (simp add: initialize_def fresh_def)
  have "start_upload failing_client ?p ?w =
     Some (Inr (), ?w\<lparr>log := log ?w @ UploadToFileSearchStore ?p #
                                concat (replicate (Suc 0) [Delay 3000, OperationsGet]),
                     fetched := fetched ?w + Suc 0\<rparr>)"
  proof (rule start_upload_run)
    show "upload_reply failing_client ?p = Inr pending"
      by (simp add: failing_client_def client_def)
    show "\<forall>i<Suc 0. \<exists>op. status_after failing_client (fetched ?w) pending i = Inr op \<and> \<not> is_done op"
      by (simp add: is_done_def pending_def)
    show "status_after failing_client (fetched ?w) pending (Suc 0)
       = Inr (pending\<lparr>op_done := Some True, op_error := Some ''ingestion failed''\<rparr>)"
      using failing_status f by simp
    show "is_done (pending\<lparr>op_done := Some True, op_error := Some ''ingestion failed''\<rparr>)"
      by (simp add: is_done_def)
  qed
  then show ?thesis
    using failing_status
    by (simp add: uploadDocument_def initialize_def fresh_def pending_def)
qed

subsection \<open>Listing\<close>

text \<open>
  C3, as the code has it. Whatever pages the backend returns, each listing returns, in
  the order received, exactly the records of all pages that pass its test: for
  \<^verbatim>\<open>listRagStores\<close> a name and a display name both present and non-empty, for
  \<^verbatim>\<open>listDocumentsInStore\<close> a name that starts with the store name followed by a slash.
  A record without its name is therefore left out, the listing itself succeeding.
\<close>

theorem listings_keep_tested_records_in_order:
  assumes "ai w = Some b"
  shows "(stores_list b = map Inr pages \<longrightarrow>
            fst (listRagStores w) =
              Inr (map as_RagStore
                    (filter (\<lambda>store. \<exists>n d. fs_name store = Some n \<and> n \<noteq> []
                                          \<and> fs_displayName store = Some d \<and> d \<noteq> [])
                      (concat pages))))
       \<and> (files_list b = map Inr fpages \<longrightarrow>
            fst (listDocumentsInStore s w) =
              Inr (filter (\<lambda>doc. \<exists>n. doc_name doc = Some n \<and> prefix (s @ ''/'') n)
                    (concat fpages)))"
proof -
  have "store_kept = (\<lambda>store. \<exists>n d. fs_name store = Some n \<and> n \<noteq> []
                                       \<and> fs_displayName store = Some d \<and> d \<noteq> [])"
  proof
    fix store show "store_kept store = (\<exists>n d. fs_name store = Some n \<and> n \<noteq> []
                                       \<and> fs_displayName store = Some d \<and> d \<noteq> [])"
      by (cases "fs_name store"; cases "fs_displayName store") (simp_all add: store_kept_def)
  qed
  moreover have "doc_kept s = (\<lambda>doc. \<exists>n. doc_name doc = Some n \<and> prefix (s @ ''/'') n)"
    by (auto simp: doc_kept_def fun_eq_iff split: option.splits)
  ultimately show ?thesis
    using assms listRagStores_pages [of w b pages] listDocumentsInStore_pages [of w b fpages s]
    by auto
qed

theorem listings_keep_tested_records_in_order_witness:
  "fst (listRagStores (initialize listing_client fresh))
     = Inr [\<lparr>name = ''fileSearchStores/a'', displayName = ''Assembly''\<rparr>,
            \<lparr>name = ''fileSearchStores/b'', displayName = ''Boilers''\<rparr>]
   \<and> fst (listDocumentsInStore ''fileSearchStores/a'' (initialize listing_client fresh))
     = Inr [doc_a1, doc_a2]
   \<and> fs_name store_unnamed = None \<and> doc_name doc_unnamed = None"
proof -
  let ?w = "initialize listing_client fresh"
  have 1: "ai ?w = Some listing_client" by (simp add: initialize_def)
  have 2: "stores_list listing_client = map Inr [[store_a, store_unnamed], [store_untitled, store_b]]"
    by (simp add: listing_client_def)
  have 3: "files_list listing_client = map Inr [[doc_a1, doc_b1], [doc_unnamed, doc_a2]]"
    by (simp add: listing_client_def)
  have n: "fs_name store_a = Some ''fileSearchStores/a''" "fs_displayName store_a = Some ''Assembly''"
    "fs_name store_b = Some ''fileSearchStores/b''" "fs_displayName store_b = Some ''Boilers''"
    "fs_name store_unnamed = None" "fs_displayName store_untitled = None"
    by (simp_all add: store_a_def store_b_def store_unnamed_def store_untitled_def)
  have d: "doc_name doc_a1 = Some ''fileSearchStores/a/doc1''"
    "doc_name doc_a2 = Some ''fileSearchStores/a/doc2''"
    "doc_name doc_b1 = Some ''fileSearchStores/b/doc1''"
    "doc_name doc_unnamed = None"
    by (simp_all add: doc_a1_def doc_a2_def doc_b1_def doc_unnamed_def)
  from listings_keep_tested_records_in_order [OF 1,
      of "[[store_a, store_unnamed], [store_untitled, store_b]]"
      "[[doc_a1, doc_b1], [doc_unnamed, doc_a2]]" "''fileSearchStores/a''"] 2 3
  have "fst (listRagStores ?w) =
          Inr (map as_RagStore
                (filter (\<lambda>store. \<exists>n d. fs_name store = Some n \<and> n \<noteq> []
                                      \<and> fs_displayName store = Some d \<and> d \<noteq> [])
                  (concat [[store_a, store_unnamed], [store_untitled, store_b]])))"
    and "fst (listDocumentsInStore ''fileSearchStores/a'' ?w) =
          Inr (filter (\<lambda>doc. \<exists>n. doc_name doc = Some n \<and> prefix (''fileSearchStores/a'' @ ''/'') n)
                (concat [[doc_a1, doc_b1], [doc_unnamed, doc_a2]]))"
    by blast+
  then show ?thesis using n d by (simp add: as_RagStore_def)
qed

text \<open>
  C3 as stated fails: a store record that has its name, and so its identity, is left
  out of the listing for want of a display name.
\<close>

theorem named_store_dropped:
  "stores_list listing_client = [Inr [store_a, store_unnamed], Inr [store_untitled, store_b]]
   \<and> fs_name store_untitled = Some ''fileSearchStores/d''
   \<and> fst (listRagStores (initialize listing_client fresh))
     = Inr [\<lparr>name = ''fileSearchStores/a'', displayName = ''Assembly''\<rparr>,
            \<lparr>name = ''fileSearchStores/b'', displayName = ''Boilers''\<rparr>]"
  by (simp add: listing_client_def listRagStores_def initialize_def push_store_def
      store_kept_def as_RagStore_def store_a_def store_b_def store_unnamed_def
      store_untitled_def)

text \<open>
  C4. For every store name and every global file listing, \<^verbatim>\<open>listDocumentsInStore\<close>
  returns the entries whose name starts with the store name followed by a slash, all of
  them and no others: entries of other stores and entries without a name are excluded.
\<close>

theorem documents_of_store_only:
  assumes "ai w = Some b" and "files_list b = map Inr pages"
  shows "\<exists>docs. fst (listDocumentsInStore s w) = Inr docs
           \<and> docs = filter (\<lambda>d. \<exists>n. doc_name d = Some n \<and> prefix (s @ ''/'') n) (concat pages)
           \<and> (\<forall>d. d \<in> set docs \<longleftrightarrow>
                 d \<in> set (concat pages) \<and> (\<exists>n. doc_name d = Some n \<and> prefix (s @ ''/'') n))"
proof -
  have "doc_kept s = (\<lambda>d. \<exists>n. doc_name d = Some n \<and> prefix (s @ ''/'') n)"
    by (auto simp: doc_kept_def fun_eq_iff split: option.splits)
  then show ?thesis
    using listDocumentsInStore_pages [OF assms, of s] by auto
qed

theorem documents_of_store_only_witness:
  "fst (listDocumentsInStore ''fileSearchStores/b'' (initialize listing_client fresh)) = Inr [doc_b1]
   \<and> doc_a1 \<in> set (concat [[doc_a1, doc_b1], [doc_unnamed, doc_a2]])
   \<and> doc_unnamed \<in> set (concat [[doc_a1, doc_b1], [doc_unnamed, doc_a2]])"
proof -
  let ?w = "initialize listing_client fresh"
  have 1: "ai ?w = Some listing_client" by (simp add: initialize_def)
  have 2: "files_list listing_client = map Inr [[doc_a1, doc_b1], [doc_unnamed, doc_a2]]"
    by (simp add: listing_client_def)
  have n: "doc_name doc_a1 = Some ''fileSearchStores/a/doc1''"
    "doc_name doc_a2 = Some ''fileSearchStores/a/doc2''"
    "doc_name doc_b1 = Some ''fileSearchStores/b/doc1''"
    "doc_name doc_unnamed = None"
    by (simp_all add: doc_a1_def doc_a2_def doc_b1_def doc_unnamed_def)
  from documents_of_store_only [OF 1 2, of "''fileSearchStores/b''"]
  have "fst (listDocumentsInStore ''fileSearchStores/b'' ?w)
      = Inr (filter (\<lambda>d. \<exists>n. doc_name d = Some n \<and> prefix (''fileSearchStores/b'' @ ''/'') n)
          (concat [[doc_a1, doc_b1], [doc_unnamed, doc_a2]]))"
    by blast
  then show ?thesis using n by simp
qed

text \<open>
  C10, as the code has it. \<^verbatim>\<open>listRagStores\<close> includes a store record if and only if
  its name and its display name are both present and non-empty; a record that carries a
  name and lacks a display name is left out.
\<close>

theorem stores_need_both_fields_nonempty:
  assumes "ai w = Some b" and "stores_list b = map Inr pages"
  shows "fst (listRagStores w) =
           Inr (map as_RagStore
                 (filter (\<lambda>store. \<exists>n d. fs_name store = Some n \<and> n \<noteq> []
                                       \<and> fs_displayName store = Some d \<and> d \<noteq> [])
                   (concat pages)))
       \<and> (\<forall>store. fs_displayName store = None \<longrightarrow> \<not> store_kept store)"
proof -
  have "store_kept = (\<lambda>store. \<exists>n d. fs_name store = Some n \<and> n \<noteq> []
                                       \<and> fs_displayName store = Some d \<and> d \<noteq> [])"
  proof
    fix store show "store_kept store = (\<exists>n d. fs_name store = Some n \<and> n \<noteq> []
                                       \<and> fs_displayName store = Some d \<and> d \<noteq> [])"
      by (cases "fs_name store"; cases "fs_displayName store") (simp_all add: store_kept_def)
  qed
  then show ?thesis
    using listRagStores_pages [OF assms] by (simp add: store_kept_def)
qed

theorem stores_need_both_fields_nonempty_witness:
  "fst (listRagStores (initialize listing_client fresh))
     = Inr [\<lparr>name = ''fileSearchStores/a'', displayName = ''Assembly''\<rparr>,
            \<lparr>name = ''fileSearchStores/b'', displayName = ''Boilers''\<rparr>]
   \<and> fs_name store_untitled = Some ''fileSearchStores/d''
   \<and> fs_displayName store_untitled = None \<and> \<not> store_kept store_untitled"
proof -
  let ?w = "initialize listing_client fresh"
  have 1: "ai ?w = Some listing_client" by (simp add: initialize_def)
  have 2: "stores_list listing_client = map Inr [[store_a, store_unnamed], [store_untitled, store_b]]"
    by (simp add: listing_client_def)
  have 3: "fs_displayName store_untitled = None" by (simp add: store_untitled_def)
  have n: "fs_name store_a = Some ''fileSearchStores/a''" "fs_displayName store_a = Some ''Assembly''"
    "fs_name store_b = Some ''fileSearchStores/b''" "fs_displayName store_b = Some ''Boilers''"
    "fs_name store_unnamed = None" "fs_name store_untitled = Some ''fileSearchStores/d''"
    by (simp_all add: store_a_def store_b_def store_unnamed_def store_untitled_def)
  from stores_need_both_fields_nonempty [OF 1 2] 3
  have "fst (listRagStores ?w) =
           Inr (map as_RagStore
                 (filter (\<lambda>store. \<exists>n d. fs_name store = Some n \<and> n \<noteq> []
                                       \<and> fs_displayName store = Some d \<and> d \<noteq> [])
                   (concat [[store_a, store_unnamed], [store_untitled, store_b]])))"
    and "\<not> store_kept store_untitled" by blast+
  then show ?thesis using n 3 by (simp add: as_RagStore_def)
qed

text \<open>
  C10 as stated fails: a record with both fields present, the display name being the
  empty string, is left out.
\<close>

theorem blank_display_name_omitted:
  "fs_name store_blank = Some ''fileSearchStores/e'' \<and> fs_displayName store_blank = Some ''''
   \<and> stores_list blank_listing_client = [Inr [store_blank]]
   \<and> fst (listRagStores (initialize blank_listing_client fresh)) = Inr []"
  by (simp add: store_blank_def blank_listing_client_def listRagStores_def initialize_def
      push_store_def store_kept_def)

subsection \<open>Creating a store\<close>

text \<open>
  C7, as the code has it. When the backend replies, \<^verbatim>\<open>createRagStore\<close> raises
  \<open>InvalidResponse\<close> if the reply has no name or an empty one, and returns the assigned
  name otherwise.
\<close>

theorem created_store_name:
  assumes "ai w = Some b" and "stores_create b dn = Inr ragStore"
  shows "fst (createRagStore dn w) =
           (case fs_name ragStore of
              None \<Rightarrow> Inl InvalidResponse
            | Some n \<Rightarrow> if n = [] then Inl InvalidResponse else Inr n)"
  using assms by (simp add: createRagStore_def split: option.splits)

theorem created_store_name_witness:
  "fst (createRagStore ''Assembly'' (initialize client fresh)) = Inr ''fileSearchStores/Assembly''
   \<and> fst (createRagStore ''Assembly'' (initialize nameless_client fresh)) = Inl InvalidResponse"
proof -
  have 1: "ai (initialize client fresh) = Some client"
    and 2: "ai (initialize nameless_client fresh) = Some nameless_client"
    by (simp_all add: initialize_def)
  have 3: "stores_create client ''Assembly''
      = Inr \<lparr>fs_name = Some ''fileSearchStores/Assembly'', fs_displayName = Some ''Assembly''\<rparr>"
    by (simp add: client_def)
  have 4: "stores_create nameless_client ''Assembly''
      = Inr \<lparr>fs_name = None, fs_displayName = Some ''Assembly''\<rparr>"
    by (simp add: nameless_client_def)
  show ?thesis
    using created_store_name [OF 1 3] created_store_name [OF 2 4] by simp
qed

text \<open>
  C7 as stated fails: the reply carries a name, the empty string, and the call raises
  instead of returning it.
\<close>

theorem blank_store_name_rejected:
  "stores_create blank_name_client ''Assembly''
     = Inr \<lparr>fs_name = Some '''', fs_displayName = Some ''Assembly''\<rparr>
   \<and> fst (createRagStore ''Assembly'' (initialize blank_name_client fresh)) = Inl InvalidResponse"
  by (simp add: blank_name_client_def createRagStore_def initialize_def)

subsection \<open>Querying\<close>

text \<open>
  C9, as the code has it. With a table of non-empty language names, and for a language
  code that the table has or that names no property inherited from
  \<^verbatim>\<open>Object.prototype\<close>, \<^verbatim>\<open>fileSearch\<close> puts into its prompt the name the table gives for
  the code, and for a code the table does not have the words
  \<^verbatim>\<open>the user's query language\<close>; the call then fails only where the backend does.
\<close>

theorem language_resolution:
  assumes "ai w = Some b"
    and "\<forall>n. supportedLanguages language = Some n \<longrightarrow> n \<noteq> []"
    and "supportedLanguages language = None \<longrightarrow> language \<notin> fst ` set Object_prototype"
  shows "let languageName = (case supportedLanguages language of
                               Some n \<Rightarrow> n
                             | None \<Rightarrow> ''the user's query language'');
             params = search_params (query_contents query languageName) ragStoreName;
             outcome = fileSearch supportedLanguages ragStoreName query language w
         in snd outcome = emit (GenerateContent params) w
          \<and> (\<forall>e. fst outcome = Inl e \<longleftrightarrow> generate_reply b params = Inl e)"
proof -
  have "supportedLanguages language = None \<Longrightarrow> map_of Object_prototype language = None"
    using assms(3) by (simp add: map_of_eq_None_iff)
  then have "query_languageName supportedLanguages language =
    (case supportedLanguages language of Some n \<Rightarrow> n | None \<Rightarrow> ''the user's query language'')"
    using assms(2)
    by (simp add: query_languageName_def read_language_def or_default_def split: option.splits)
  then show ?thesis
    using assms(1) by (auto simp: fileSearch_def Let_def split: sum.splits)
qed

theorem language_resolution_witness:
  "sample_languages ''xx'' = None
   \<and> snd (fileSearch sample_languages ''fileSearchStores/a'' ''How?'' ''xx'' (initialize client fresh))
     = emit (GenerateContent
         (search_params (query_contents ''How?'' ''the user's query language'') ''fileSearchStores/a''))
         (initialize client fresh)
   \<and> sample_languages ''es'' = Some ''Spanish''
   \<and> snd (fileSearch sample_languages ''fileSearchStores/a'' ''How?'' ''es'' (initialize client fresh))
     = emit (GenerateContent (search_params (query_contents ''How?'' ''Spanish'') ''fileSearchStores/a''))
         (initialize client fresh)
   \<and> (\<forall>e. fst (fileSearch sample_languages ''fileSearchStores/a'' ''How?'' ''xx''
               (initialize client fresh)) \<noteq> Inl e)"
proof -
  let ?w = "initialize client fresh"
  have 1: "ai ?w = Some client" by (simp add: initialize_def)
  have x: "sample_languages ''xx'' = None" and s: "sample_languages ''es'' = Some ''Spanish''"
    by (simp_all add: sample_languages_def)
  have 2: "\<forall>n. sample_languages ''xx'' = Some n \<longrightarrow> n \<noteq> []" using x by simp
  have 3: "\<forall>n. sample_languages ''es'' = Some n \<longrightarrow> n \<noteq> []" using s by simp
  have 4: "sample_languages ''xx'' = None \<longrightarrow> ''xx'' \<notin> fst ` set Object_prototype"
    by (simp add: Object_prototype_def)
  have 5: "sample_languages ''es'' = None \<longrightarrow> ''es'' \<notin> fst ` set Object_prototype"
    by (simp add: Object_prototype_def)
  have g: "\<And>p e. generate_reply client p \<noteq> Inl e" by (simp add: client_def)
  show ?thesis
    using language_resolution [where supportedLanguages = sample_languages and language = "''xx''"
          and query = "''How?''" and ragStoreName = "''fileSearchStores/a''", OF 1 2 4]
      language_resolution [where supportedLanguages = sample_languages and language = "''es''"
          and query = "''How?''" and ragStoreName = "''fileSearchStores/a''", OF 1 3 5] x s g
    by (simp add: Let_def)
qed

text \<open>
  C9 as stated fails: \<^verbatim>\<open>constructor\<close> is no language code of the table, yet the read
  finds the inherited property and the prompt asks for an answer in the text of that
  function, not in the fallback words.
\<close>

theorem inherited_property_not_fallback:
  "sample_languages ''constructor'' = None
   \<and> snd (fileSearch sample_languages ''fileSearchStores/a'' ''How?'' ''constructor''
            (initialize client fresh))
     = emit (GenerateContent
         (search_params (query_contents ''How?'' ''function Object() { [native code] }'')
            ''fileSearchStores/a''))
         (initialize client fresh)
   \<and> query_contents ''How?'' ''function Object() { [native code] }''
     \<noteq> query_contents ''How?'' ''the user's query language''"
  by (simp add: sample_languages_def fileSearch_def initialize_def query_languageName_def
      read_language_def Object_prototype_def native_function_def or_default_def
      query_contents_def Let_def)

subsection \<open>Example questions\<close>

text \<open>
  C5, as the code has it. Once \<^verbatim>\<open>initialize\<close> has run, \<^verbatim>\<open>generateExampleQuestions\<close>
  never raises, whatever the backend answers, and every failure path (backend failure,
  a payload that is no JSON, a parse result that is no array, an unexpected element
  shape) returns the empty sequence.
\<close>

theorem suggestions_absorb_failures:
  assumes "ai w = Some b"
  shows "(\<exists>qs. fst (generateExampleQuestions tbl parse s lang w) = Inr qs)
       \<and> (failure_path parse
             (generate_reply b (search_params (questions_contents (questions_languageName tbl lang)) s))
           \<longrightarrow> fst (generateExampleQuestions tbl parse s lang w) = Inr [])"
proof -
  let ?reply = "generate_reply b (search_params (questions_contents (questions_languageName tbl lang)) s)"
  have "(case try_questions parse ?reply of Inl e \<Rightarrow> [] | Inr (qs, warned) \<Rightarrow> qs) = []"
    if "failure_path parse ?reply"
  proof (cases ?reply)
    case (Inl e)
    then show ?thesis by (simp add: try_questions_def)
  next
    case (Inr response)
    show ?thesis
    proof (cases "resp_text response")
      case None
      with Inr show ?thesis by (simp add: try_questions_def)
    next
      case (Some t)
      show ?thesis
      proof (cases "parse (extract_json (trim t))")
        case None
        with Inr Some show ?thesis by (simp add: try_questions_def)
      next
        case (Some v)
        note v = this
        show ?thesis
        proof (cases "\<exists>xs. v = JArray xs")
          case False
          then have "coerce v = Inr ([], True)" by (simp add: coerce_not_array)
          with Inr \<open>resp_text response = Some t\<close> v show ?thesis
            by (simp add: try_questions_def)
        next
          case True
          then obtain xs where xs: "v = JArray xs" by blast
          show ?thesis
          proof (cases xs)
            case Nil
            with that Inr \<open>resp_text response = Some t\<close> v xs show ?thesis
              by (simp add: failure_path_def)
          next
            case (Cons y ys)
            with that Inr \<open>resp_text response = Some t\<close> v xs
            have "if has_questions_array y then JNull \<in> set ys else \<not> is_string y"
              by (simp add: failure_path_def)
            then have "(case coerce (JArray (y # ys)) of Inl e \<Rightarrow> [] | Inr (qs, warned) \<Rightarrow> qs) = []"
              by (simp add: coerce_nonempty split: if_splits)
            with Inr \<open>resp_text response = Some t\<close> v xs Cons show ?thesis
              by (simp add: try_questions_def)
          qed
        qed
      qed
    qed
  qed
  then show ?thesis
    using generateExampleQuestions_initialized [OF assms, of tbl parse s lang] by simp
qed

theorem suggestions_absorb_failures_witness:
  "failure_path sample_parse
     (generate_reply client
        (search_params (questions_contents (questions_languageName sample_languages ''en'')) ''manuals''))
   \<and> fst (generateExampleQuestions sample_languages sample_parse ''manuals'' ''en''
            (initialize client fresh)) = Inr []"
proof -
  have 1: "ai (initialize client fresh) = Some client" by (simp add: initialize_def)
  have p: "sample_parse ''not json at all'' = None"
    by (simp add: sample_parse_def groups_text_def null_text_def scalar_text_def)
  have 2: "failure_path sample_parse
     (generate_reply client
        (search_params (questions_contents (questions_languageName sample_languages ''en'')) ''manuals''))"
    using p by (simp add: failure_path_def client_def plain_text)
  show ?thesis
    using suggestions_absorb_failures [OF 1, of sample_languages sample_parse "''manuals''" "''en''"] 2
    by simp
qed

text \<open>
  C5 as stated fails: before initialization the function raises, its check being
  outside the \<^verbatim>\<open>try\<close> block.
\<close>

theorem suggestions_raise_uninitialized:
  "fst (generateExampleQuestions sample_languages sample_parse ''manuals'' ''en'' fresh)
     = Inl BackendUnavailable"
  by (simp add: generateExampleQuestions_def fresh_def)

text \<open>
  C6, as the code has it. For a parsed non-empty array the function returns
  \<open>performed_coercion\<close>: with a first element that is an object with an array-valued
  \<^verbatim>\<open>questions\<close> field, the string entries of what the elements contribute (the entries
  of a \<^verbatim>\<open>questions\<close> array, a truthy non-array \<^verbatim>\<open>questions\<close> value as it is), and
  nothing at all when some element is \<^verbatim>\<open>null\<close>; with a first element that is a string,
  the string entries of the array; otherwise nothing.
\<close>

theorem question_coercion:
  assumes "ai w = Some b"
    and "generate_reply b (search_params (questions_contents (questions_languageName tbl lang)) s)
           = Inr response"
    and "resp_text response = Some t"
    and "parse (extract_json (trim t)) = Some (JArray (x # xs))"
  shows "fst (generateExampleQuestions tbl parse s lang w) = Inr (performed_coercion (x # xs))"
proof -
  have "(case coerce (JArray (x # xs)) of Inl e \<Rightarrow> [] | Inr (qs, warned) \<Rightarrow> qs)
      = performed_coercion (x # xs)"
    using has_questions_array_not_null [of x]
    by (auto simp: coerce_nonempty performed_coercion_def)
  then show ?thesis
    using generateExampleQuestions_initialized [OF assms(1), of tbl parse s lang] assms(2,3,4)
    by (simp add: try_questions_def)
qed

theorem question_coercion_witness:
  "sample_parse (extract_json (trim groups_text)) = Some (JArray groups_json)
   \<and> fst (generateExampleQuestions sample_languages sample_parse ''groups'' ''en''
            (initialize answering_client fresh)) = Inr [''q1'', ''q2'', ''q3'']"
proof -
  let ?w = "initialize answering_client fresh"
  have 1: "ai ?w = Some answering_client" by (simp add: initialize_def)
  have 2: "generate_reply answering_client
        (search_params (questions_contents (questions_languageName sample_languages ''en'')) ''groups'')
      = Inr \<lparr>resp_text = Some groups_text, candidates = None\<rparr>"
    by (rule answering_replies)
  have 3: "resp_text \<lparr>resp_text = Some groups_text, candidates = None\<rparr> = Some groups_text"
    by simp
  have 4: "sample_parse (extract_json (trim groups_text)) =
      Some (JArray (JObject [(''product'', JString ''A''), (''questions'', JArray [JString ''q1''])] #
                    [JObject [(''product'', JString ''B''),
                              (''questions'', JArray [JString ''q2'', JString ''q3''])]]))"
    by (simp add: sample_texts sample_parses groups_json_def)
  have 5: "performed_coercion
      (JObject [(''product'', JString ''A''), (''questions'', JArray [JString ''q1''])] #
       [JObject [(''product'', JString ''B''), (''questions'', JArray [JString ''q2'', JString ''q3''])]])
      = [''q1'', ''q2'', ''q3'']"
    by (simp add: performed_coercion_def)
  show ?thesis
    using question_coercion [where tbl = sample_languages and lang = "''en''" and s = "''groups''"
        and parse = sample_parse and t = groups_text, OF 1 2 3 4] 4 5
    by (simp add: groups_json_def)
qed

text \<open>
  C6 as stated fails on two arrays whose first element has a \<^verbatim>\<open>questions\<close> array: with
  a \<^verbatim>\<open>null\<close> element the result is empty, and a string-valued \<^verbatim>\<open>questions\<close> field is
  kept as an entry; the wording gives \<^verbatim>\<open>["q1"]\<close> for both.
\<close>

theorem coercion_differs_from_wording:
  "sample_parse (extract_json (trim null_text)) = Some (JArray null_json)
   \<and> fst (generateExampleQuestions sample_languages sample_parse ''null'' ''en''
            (initialize answering_client fresh)) = Inr []
   \<and> claimed_coercion null_json = [''q1'']
   \<and> sample_parse (extract_json (trim scalar_text)) = Some (JArray scalar_json)
   \<and> fst (generateExampleQuestions sample_languages sample_parse ''scalar'' ''en''
            (initialize answering_client fresh)) = Inr [''q1'', ''q2'']
   \<and> claimed_coercion scalar_json = [''q1'']"
proof -
  let ?w = "initialize answering_client fresh"
  have 1: "ai ?w = Some answering_client" by (simp add: initialize_def)
  have n: "coerce (JArray null_json) = Inl TypeError"
    by (simp add: null_json_def coerce_def questions_or_empty_def)
  have s: "coerce (JArray scalar_json) = Inr ([''q1'', ''q2''], False)"
    by (simp add: scalar_json_def coerce_def questions_or_empty_def)
  have "fst (generateExampleQuestions sample_languages sample_parse ''null'' ''en'' ?w) = Inr []"
    using generateExampleQuestions_initialized [OF 1, of sample_languages sample_parse "''null''" "''en''"] n
    by (simp add: try_questions_def answering_replies sample_texts sample_parses)
  moreover
  have "fst (generateExampleQuestions sample_languages sample_parse ''scalar'' ''en'' ?w)
      = Inr [''q1'', ''q2'']"
    using generateExampleQuestions_initialized [OF 1, of sample_languages sample_parse "''scalar''" "''en''"] s
    by (simp add: try_questions_def answering_replies sample_texts sample_parses)
  moreover have "claimed_coercion null_json = [''q1'']"
    by (simp add: claimed_coercion_def null_json_def)
  moreover have "claimed_coercion scalar_json = [''q1'']"
    by (simp add: claimed_coercion_def scalar_json_def)
  ultimately show ?thesis by (simp add: sample_texts sample_parses)
qed

end
